theory Spec2Isabelle
  imports Complex_Main "HOL-Library.Word" "HOL-Library.Sublist" "HOL-Library.AList"
begin

section \<open>JavaScript strings\<close>

text \<open>
  A JavaScript string is a sequence of UTF-16 code units; \<open>startsWith\<close>,
  \<open>includes\<close>, the regular expression \<open>/\/$/\<close> and concatenation all work on
  code units. The source holds ASCII literals and Chinese literals; the former are
  written with \<open>ascii\<close>, the latter as the list of their code units.
\<close>

type_synonym jsstring = "16 word list"

definition ascii :: "string \<Rightarrow> jsstring" where
  "ascii s = map of_char s"

definition slash :: "16 word" where
  "slash = 0x2F"

text \<open>\<open>s.startsWith(t)\<close>\<close>

definition startsWith :: "jsstring \<Rightarrow> jsstring \<Rightarrow> bool" where
  "startsWith s t = prefix t s"

text \<open>\<open>s.includes(t)\<close>: \<open>t\<close> occurs in \<open>s\<close> at some position.\<close>

fun includes_js :: "jsstring \<Rightarrow> jsstring \<Rightarrow> bool" where
  "includes_js [] t = (t = [])"
| "includes_js (c # s) t = (prefix t (c # s) \<or> includes_js s t)"

text \<open>
  \<open>s.replace(/\/$/, '')\<close>: the pattern has no flag, so \<open>$\<close> is the end of the
  input and the one slash standing there, if any, is removed.
\<close>

definition strip_trailing_slash :: "jsstring \<Rightarrow> jsstring" where
  "strip_trailing_slash s = (if s \<noteq> [] \<and> last s = slash then butlast s else s)"

section \<open>config: the URL resolver\<close>

record api_config =
  baseURL :: jsstring
  timeout :: nat

definition API_CONFIG :: api_config where
  "API_CONFIG = \<lparr> baseURL = ascii ''http://192.168.57.9:8000'', timeout = 30 * 1000 \<rparr>"

text \<open>
  \<open>getApiUrl\<close> reads the mutable object \<open>API_CONFIG\<close>; the model takes the
  configuration in force at the call as its first argument.
\<close>

definition getApiUrl :: "api_config \<Rightarrow> jsstring \<Rightarrow> jsstring" where
  "getApiUrl cfg path =
     (if startsWith path (ascii ''http://'') \<or> startsWith path (ascii ''https://'') then path
      else
        let base = strip_trailing_slash (baseURL cfg);
            url = (if startsWith path (ascii ''/'') then path else ascii ''/'' @ path)
        in base @ url)"

section \<open>JavaScript values\<close>

text \<open>
  A \<open>Blob\<close> is modelled by its \<open>type\<close> and by the string its \<open>text()\<close>
  resolves to.
\<close>

datatype blob = Blob (blob_type: jsstring) (blob_text: jsstring)

text \<open>
  The values a response body can be: what \<open>JSON.parse\<close> yields, a string, a
  \<open>Blob\<close>, or nothing. An object is the list of its own properties in the order
  the engine lists them. Numbers are reals: the program only tests a number for being zero and for being
  \<open>401\<close>.
\<close>

datatype jsval =
    JUndefined
  | JNull
  | JBool bool
  | JNum real
  | JStr jsstring
  | JArr "jsval list"
  | JObj "(jsstring \<times> jsval) list"
  | JBlob blob

text \<open>The truth value of \<open>v\<close> in a condition, in \<open>!v\<close> and in \<open>v || w\<close>.\<close>

fun truthy :: "jsval \<Rightarrow> bool" where
  "truthy JUndefined = False"
| "truthy JNull = False"
| "truthy (JBool b) = b"
| "truthy (JNum n) = (n \<noteq> 0)"
| "truthy (JStr s) = (s \<noteq> [])"
| "truthy (JArr xs) = True"
| "truthy (JObj kvs) = True"
| "truthy (JBlob b) = True"

text \<open>\<open>a || b\<close>\<close>

definition js_or :: "jsval \<Rightarrow> jsval \<Rightarrow> jsval" where
  "js_or a b = (if truthy a then a else b)"

text \<open>\<open>typeof v === 'object'\<close>\<close>

fun typeof_object :: "jsval \<Rightarrow> bool" where
  "typeof_object JNull = True"
| "typeof_object (JArr xs) = True"
| "typeof_object (JObj kvs) = True"
| "typeof_object (JBlob b) = True"
| "typeof_object v = False"

text \<open>\<open>v instanceof Blob\<close>\<close>

fun instanceof_Blob :: "jsval \<Rightarrow> bool" where
  "instanceof_Blob (JBlob b) = True"
| "instanceof_Blob v = False"

text \<open>
  \<open>k in v\<close>, for the two keys the program asks for (\<open>skipResponseInterceptor\<close> and
  \<open>success\<close>), which no array, \<open>Blob\<close> or prototype has: only an object's own
  property answers. The program evaluates it on truthy values of type object only.
\<close>

fun in_object :: "jsstring \<Rightarrow> jsval \<Rightarrow> bool" where
  "in_object k (JObj kvs) = (map_of kvs k \<noteq> None)"
| "in_object k v = False"

section \<open>Responses, errors and the effects of a call\<close>

text \<open>\<open>FetchResponse\<close>: the status, the headers (names in lower case) and \<open>_data\<close>.\<close>

record FetchResponse =
  status :: nat
  response_headers :: "(jsstring \<times> jsstring) list"
  response_data :: jsval

text \<open>
  A thrown value: an \<open>Error\<close> with its message, and the \<open>response\<close> a
  \<open>FetchError\<close> carries when the server answered.
\<close>

datatype js_error = Error (message: jsstring) (response: "FetchResponse option")

text \<open>The anchor element \<open>download\<close> builds.\<close>

record link =
  link_href :: jsstring
  link_download :: jsstring

text \<open>
  What a call does to the outside, in order: \<open>toast.error(message, {duration})\<close>,
  \<open>console.error(label, error)\<close>, \<open>window.URL.createObjectURL(blob)\<close>, appending, clicking
  and removing the anchor, \<open>window.URL.revokeObjectURL(url)\<close>. A click on an anchor with a
  \<open>download\<close> attribute is the browser's file save.
\<close>

datatype event =
    ToastError jsval nat
  | ConsoleError jsstring js_error
  | CreateObjectURL blob
  | AppendChild link
  | Click link
  | RemoveChild link
  | RevokeObjectURL jsstring

datatype http_method = GET | POST | PUT | PATCH | DELETE

text \<open>
  \<open>RequestConfig\<close> (its \<open>method\<close> is \<open>req_method\<close> here); an optional field
  that is absent is \<open>None\<close>. Of the fields
  inherited from \<open>FetchOptions\<close> the model keeps the ones the program sets.
\<close>

record RequestConfig =
  url :: jsstring
  req_method :: "http_method option"
  skipErrorHandler :: "bool option"
  skipResponseInterceptor :: "bool option"
  headers :: "(jsstring \<times> jsstring) list option"
  params :: "jsval option"
  body :: "jsval option"
  responseType :: "jsstring option"

text \<open>The options \<open>request\<close> hands to \<open>$fetch.raw\<close>.\<close>

record FetchOptions =
  opt_method :: http_method
  opt_headers :: "(jsstring \<times> jsstring) list"
  opt_params :: "jsval option"
  opt_body :: "jsval option"
  opt_responseType :: "jsstring option"

datatype fetch_outcome = Resolves FetchResponse | Rejects js_error

text \<open>
  What the program takes from its surroundings: the configuration object, \<open>$fetch.raw\<close>
  (it rejects on a status outside 2xx, with the response in the error, and on a network
  failure, without), \<open>JSON.parse\<close> (\<open>Inl\<close> is the \<open>SyntaxError\<close>), the
  conversion of a value that is not a string to a string inside \<open>new Error(v)\<close>
  (\<open>Inl\<close> when it throws), the \<open>TypeError\<close> of reading a property of \<open>null\<close>
  or \<open>undefined\<close>, and \<open>window.URL.createObjectURL\<close>.
\<close>

record env =
  config :: api_config
  fetch_raw :: "jsstring \<Rightarrow> FetchOptions \<Rightarrow> fetch_outcome"
  JSON_parse :: "jsstring \<Rightarrow> js_error + jsval"
  to_string :: "jsval \<Rightarrow> js_error + jsstring"
  type_error :: "jsval \<Rightarrow> jsstring \<Rightarrow> js_error"
  createObjectURL :: "blob \<Rightarrow> jsstring"

text \<open>
  \<open>v.k\<close>, for the keys the program reads (\<open>success\<close>, \<open>msg\<close>, \<open>code\<close>,
  \<open>data\<close>): an object's own property or \<open>undefined\<close>; \<open>null\<close> and
  \<open>undefined\<close> throw.
\<close>

fun get_prop :: "env \<Rightarrow> jsval \<Rightarrow> jsstring \<Rightarrow> js_error + jsval" where
  "get_prop E JUndefined k = Inl (type_error E JUndefined k)"
| "get_prop E JNull k = Inl (type_error E JNull k)"
| "get_prop E (JObj kvs) k = Inr (case map_of kvs k of None \<Rightarrow> JUndefined | Some v \<Rightarrow> v)"
| "get_prop E v k = Inr JUndefined"

text \<open>
  The value thrown by \<open>throw new Error(v)\<close>: the new error, whose message is \<open>v\<close>
  as a string, or what the conversion throws.
\<close>

definition throw_new_Error :: "env \<Rightarrow> jsval \<Rightarrow> js_error" where
  "throw_new_Error E v =
     (case v of
        JStr s \<Rightarrow> Error s None
      | JUndefined \<Rightarrow> Error [] None
      | _ \<Rightarrow> (case to_string E v of Inl e \<Rightarrow> e | Inr s \<Rightarrow> Error s None))"

section \<open>request: messages\<close>

text \<open>the default text of handleError ("server side error")\<close>

definition msg_server_side_error :: jsstring where
  "msg_server_side_error =
     [0x670D, 0x52A1, 0x5668, 0x7AEF, 0x9519, 0x8BEF]"

text \<open>"download failed"\<close>

definition msg_download_failed :: jsstring where
  "msg_download_failed =
     [0x4E0B, 0x8F7D, 0x5931, 0x8D25]"

text \<open>"unauthorized, please log in again"\<close>

definition msg_unauthorized :: jsstring where
  "msg_unauthorized =
     [0x672A, 0x6388, 0x6743, 0xFF0C, 0x8BF7, 0x91CD, 0x65B0, 0x767B, 0x5F55]"

text \<open>"request failed"\<close>

definition msg_request_failed :: jsstring where
  "msg_request_failed =
     [0x8BF7, 0x6C42, 0x5931, 0x8D25]"

text \<open>the text for a status outside the table ("the server is not responding for now ...")\<close>

definition msg_server_not_responding :: jsstring where
  "msg_server_not_responding =
     [0x670D, 0x52A1, 0x5668, 0x6682, 0x65F6, 0x672A, 0x54CD, 0x5E94, 0xFF0C, 0x8BF7, 0x5237,
     0x65B0, 0x9875, 0x9762, 0x5E76, 0x91CD, 0x8BD5, 0x3002, 0x82E5, 0x65E0, 0x6CD5, 0x89E3,
     0x51B3, 0xFF0C, 0x8BF7, 0x8054, 0x7CFB, 0x7BA1, 0x7406, 0x5458]"

text \<open>"network connection failed, please check your network"\<close>

definition msg_network_failed :: jsstring where
  "msg_network_failed =
     [0x7F51, 0x7EDC, 0x8FDE, 0x63A5, 0x5931, 0x8D25, 0xFF0C, 0x8BF7, 0x68C0, 0x67E5, 0x60A8,
     0x7684, 0x7F51, 0x7EDC]"

text \<open>the label of the console message of download ("file download failed:")\<close>

definition label_download_failed :: jsstring where
  "label_download_failed =
     [0x6587, 0x4EF6, 0x4E0B, 0x8F7D, 0x5931, 0x8D25, 0x003A]"

definition StatusCodeMessage :: "nat \<Rightarrow> jsstring option" where
  "StatusCodeMessage = map_of
     [(200, [0x670D, 0x52A1, 0x5668, 0x6210, 0x529F, 0x8FD4, 0x56DE, 0x8BF7, 0x6C42, 0x7684,
            0x6570, 0x636E]),
      (201, [0x65B0, 0x5EFA, 0x6216, 0x4FEE, 0x6539, 0x6570, 0x636E, 0x6210, 0x529F, 0x3002]),
      (202, [0x4E00, 0x4E2A, 0x8BF7, 0x6C42, 0x5DF2, 0x7ECF, 0x8FDB, 0x5165, 0x540E, 0x53F0,
            0x6392, 0x961F, 0xFF08, 0x5F02, 0x6B65, 0x4EFB, 0x52A1, 0xFF09]),
      (204, [0x5220, 0x9664, 0x6570, 0x636E, 0x6210, 0x529F]),
      (400, [0x8BF7, 0x6C42, 0x9519, 0x8BEF, 0x0028, 0x0034, 0x0030, 0x0030, 0x0029]),
      (401, [0x672A, 0x6388, 0x6743, 0xFF0C, 0x8BF7, 0x91CD, 0x65B0, 0x767B, 0x5F55, 0x0028,
            0x0034, 0x0030, 0x0031, 0x0029]),
      (403, [0x62D2, 0x7EDD, 0x8BBF, 0x95EE, 0x0028, 0x0034, 0x0030, 0x0033, 0x0029]),
      (404, [0x8BF7, 0x6C42, 0x51FA, 0x9519, 0x0028, 0x0034, 0x0030, 0x0034, 0x0029]),
      (408, [0x8BF7, 0x6C42, 0x8D85, 0x65F6, 0x0028, 0x0034, 0x0030, 0x0038, 0x0029]),
      (500, [0x670D, 0x52A1, 0x5668, 0x9519, 0x8BEF, 0x0028, 0x0035, 0x0030, 0x0030, 0x0029]),
      (501, [0x670D, 0x52A1, 0x672A, 0x5B9E, 0x73B0, 0x0028, 0x0035, 0x0030, 0x0031, 0x0029]),
      (502, [0x7F51, 0x7EDC, 0x9519, 0x8BEF, 0x0028, 0x0035, 0x0030, 0x0032, 0x0029]),
      (503, [0x670D, 0x52A1, 0x4E0D, 0x53EF, 0x7528, 0x0028, 0x0035, 0x0030, 0x0033, 0x0029]),
      (504, [0x7F51, 0x7EDC, 0x8D85, 0x65F6, 0x0028, 0x0035, 0x0030, 0x0034, 0x0029])]"

section \<open>request: the dispatcher\<close>

text \<open>\<open>handleError(msg)\<close>: one toast, shown for 5000 ms.\<close>

definition handleError :: "jsval \<Rightarrow> event list" where
  "handleError msg = [ToastError (js_or msg (JStr msg_server_side_error)) 5000]"

definition getToken :: "jsstring option" where
  "getToken = None"

definition getTenantId :: "jsstring option" where
  "getTenantId = None"

text \<open>
  The order in which an object lists its own properties: the keys that are array indices
  (the decimal numeral, without a leading zero, of a number below \<open>2^32 - 1\<close>) in
  ascending order, then the other keys in the order of their creation.
\<close>

definition index_value :: "jsstring \<Rightarrow> nat" where
  "index_value k = foldl (\<lambda>n c. 10 * n + (unat c - 48)) 0 k"

definition is_array_index :: "jsstring \<Rightarrow> bool" where
  "is_array_index k =
     (k \<noteq> [] \<and> list_all (\<lambda>c. 0x30 \<le> c \<and> c \<le> 0x39) k \<and> (length k = 1 \<or> hd k \<noteq> 0x30)
      \<and> index_value k < 2 ^ 32 - 1)"

definition own_property_order :: "(jsstring \<times> 'v) list \<Rightarrow> (jsstring \<times> 'v) list" where
  "own_property_order kvs =
     sort_key (\<lambda>kv. index_value (fst kv)) (filter (\<lambda>kv. is_array_index (fst kv)) kvs)
     @ filter (\<lambda>kv. \<not> is_array_index (fst kv)) kvs"

text \<open>
  \<open>o[k] = v\<close>: the property of that name gets the value where it stands, a new
  property takes its place in the order above.
\<close>

definition set_property :: "jsstring \<Rightarrow> 'v \<Rightarrow> (jsstring \<times> 'v) list \<Rightarrow> (jsstring \<times> 'v) list" where
  "set_property k v kvs = own_property_order (AList.update k v kvs)"

text \<open>\<open>{ ...a, ...b }\<close>: the properties of \<open>a\<close>, then those of \<open>b\<close>, set one by one.\<close>

definition spread :: "(jsstring \<times> 'v) list \<Rightarrow> (jsstring \<times> 'v) list \<Rightarrow> (jsstring \<times> 'v) list" where
  "spread a b = fold (\<lambda>(k, v). set_property k v) b (fold (\<lambda>(k, v). set_property k v) a [])"

definition createHeaders :: "RequestConfig \<Rightarrow> (jsstring \<times> jsstring) list" where
  "createHeaders cfg =
     (let hs = spread [(ascii ''Content-Type'', ascii ''application/json'')]
                 (case headers cfg of None \<Rightarrow> [] | Some h \<Rightarrow> h);
          hs = (case getToken of
                  None \<Rightarrow> hs
                | Some token \<Rightarrow>
                    if token \<noteq> [] then set_property (ascii ''Authorization'') (ascii ''Bearer '' @ token) hs
                    else hs);
          hs = (case getTenantId of
                  None \<Rightarrow> hs
                | Some tenantId \<Rightarrow>
                    if tenantId \<noteq> [] then set_property (ascii ''X-Tenant-Id'') tenantId hs else hs)
      in hs)"

text \<open>The envelope \<open>{ success: true, code: 200, msg: 'success', data: d }\<close>.\<close>

definition success_envelope :: "jsval \<Rightarrow> jsval" where
  "success_envelope d =
     JObj [(ascii ''success'', JBool True), (ascii ''code'', JNum 200),
           (ascii ''msg'', JStr (ascii ''success'')), (ascii ''data'', d)]"

text \<open>\<open>response.headers.get('content-type')?.includes('application/octet-stream')\<close>\<close>

definition octet_stream :: "FetchResponse \<Rightarrow> bool" where
  "octet_stream r =
     (case map_of (response_headers r) (ascii ''content-type'') of
        None \<Rightarrow> False
      | Some ct \<Rightarrow> includes_js ct (ascii ''application/octet-stream''))"

text \<open>
  The body of the \<open>try\<close> in the \<open>Blob\<close> branch of \<open>handleResponse\<close>, run on
  the text of the \<open>Blob\<close>: the toasts it shows, and whether it throws (\<open>Inl\<close>) or
  runs to its end.
\<close>

definition blob_try :: "env \<Rightarrow> jsstring \<Rightarrow> event list \<times> (js_error + unit)" where
  "blob_try E text =
     (case JSON_parse E text of
        Inl e \<Rightarrow> ([], Inl e)
      | Inr errorData \<Rightarrow>
          (case get_prop E errorData (ascii ''success'') of
             Inl e \<Rightarrow> ([], Inl e)
           | Inr success \<Rightarrow>
               if \<not> truthy success then
                 (case get_prop E errorData (ascii ''msg'') of
                    Inl e \<Rightarrow> ([], Inl e)
                  | Inr msg \<Rightarrow>
                      (handleError (js_or msg (JStr msg_download_failed)),
                       Inl (throw_new_Error E (js_or msg (JStr msg_download_failed)))))
               else ([], Inr ())))"

text \<open>
  \<open>try { ... } catch { }\<close>: whatever the body throws is dropped, and the toasts it has
  shown stay.
\<close>

definition catch_all :: "event list \<times> (js_error + unit) \<Rightarrow> event list" where
  "catch_all r = fst r"

text \<open>
  \<open>handleResponse(response)\<close>: the toasts it shows, and the error it throws
  (\<open>Inl\<close>) or the value it returns.
\<close>

definition handleResponse :: "env \<Rightarrow> FetchResponse \<Rightarrow> event list \<times> (js_error + jsval)" where
  "handleResponse E resp =
     (let data = response_data resp in
      if truthy data \<and> typeof_object data \<and> in_object (ascii ''skipResponseInterceptor'') data
      then ([], Inr data)
      else if octet_stream resp \<or> instanceof_Blob data then
        (let evs = (case data of
                      JBlob b \<Rightarrow>
                        if startsWith (blob_type b) (ascii ''application/json'')
                        then catch_all (blob_try E (blob_text b)) else []
                    | _ \<Rightarrow> [])
         in (evs, Inr (success_envelope data)))
      else if truthy data \<and> typeof_object data \<and> in_object (ascii ''success'') data then
        (case (get_prop E data (ascii ''success''), get_prop E data (ascii ''code''),
               get_prop E data (ascii ''msg'')) of
           (Inr success, Inr code, Inr msg) \<Rightarrow>
             if \<not> truthy success then
               ((if code = JStr (ascii ''401'') \<or> code = JNum 401
                 then handleError (js_or msg (JStr msg_unauthorized))
                 else handleError (js_or msg (JStr msg_request_failed))),
                Inl (throw_new_Error E (js_or msg (JStr msg_request_failed))))
             else ([], Inr data)
         | (Inl e, _, _) \<Rightarrow> ([], Inl e)
         | (_, Inl e, _) \<Rightarrow> ([], Inl e)
         | (_, _, Inl e) \<Rightarrow> ([], Inl e))
      else ([], Inr (success_envelope data)))"

text \<open>
  The one call of \<open>$fetch.raw\<close> in \<open>request\<close>: the resolved address, and
  \<open>{ method, headers, ...restConfig }\<close>. \<open>restConfig\<close> still holds the caller's
  \<open>headers\<close>, which therefore replace the ones \<open>createHeaders\<close> built.
\<close>

definition fetch_call :: "env \<Rightarrow> RequestConfig \<Rightarrow> fetch_outcome" where
  "fetch_call E cfg =
     (let fullUrl = getApiUrl (config E) (url cfg);
          hs = createHeaders cfg
      in fetch_raw E fullUrl
           \<lparr> opt_method = (case req_method cfg of None \<Rightarrow> GET | Some m \<Rightarrow> m),
             opt_headers = (case headers cfg of None \<Rightarrow> hs | Some h \<Rightarrow> h),
             opt_params = params cfg,
             opt_body = body cfg,
             opt_responseType = responseType cfg \<rparr>)"

text \<open>The toasts of the \<open>catch\<close> block of \<open>request\<close> when \<open>skipErrorHandler\<close> is off.\<close>

definition notify_failure :: "js_error \<Rightarrow> event list" where
  "notify_failure error =
     (case response error of
        Some r \<Rightarrow>
          handleError (JStr (case StatusCodeMessage (status r) of
                               None \<Rightarrow> msg_server_not_responding
                             | Some m \<Rightarrow> if m \<noteq> [] then m else msg_server_not_responding))
      | None \<Rightarrow>
          if message error \<noteq> [] then
            (if \<not> includes_js (message error) msg_request_failed
                \<and> \<not> includes_js (message error) msg_download_failed
             then handleError (js_or (JStr (message error)) (JStr msg_network_failed))
             else [])
          else handleError (JStr msg_network_failed))"

text \<open>
  \<open>request(config)\<close>: everything shown to the user, and the error the promise
  rejects with (\<open>Inl\<close>) or the value it resolves to.
\<close>

definition request :: "env \<Rightarrow> RequestConfig \<Rightarrow> event list \<times> (js_error + jsval)" where
  "request E cfg =
     (let skipEH = (case skipErrorHandler cfg of None \<Rightarrow> False | Some b \<Rightarrow> b);
          skipRI = (case skipResponseInterceptor cfg of None \<Rightarrow> False | Some b \<Rightarrow> b);
          attempt = (case fetch_call E cfg of
                       Rejects e \<Rightarrow> ([], Inl e)
                     | Resolves resp \<Rightarrow>
                         if skipRI then ([], Inr (success_envelope (response_data resp)))
                         else handleResponse E resp)
      in case attempt of
           (evs, Inr v) \<Rightarrow> (evs, Inr v)
         | (evs, Inl error) \<Rightarrow>
             (evs @ (if \<not> skipEH then notify_failure error else []), Inl error))"

section \<open>request: download\<close>

text \<open>The configuration \<open>download\<close> calls \<open>request\<close> with.\<close>

definition download_config :: "jsstring \<Rightarrow> jsval option \<Rightarrow> RequestConfig" where
  "download_config u ps =
     \<lparr> url = u, req_method = Some GET, skipErrorHandler = None,
       skipResponseInterceptor = Some True, headers = None, params = ps, body = None,
       responseType = Some (ascii ''blob'') \<rparr>"

text \<open>
  \<open>download(url, params, filename)\<close>: what it does to the outside, and whether the
  promise rejects (\<open>Inl\<close>) or resolves.
\<close>

definition download ::
  "env \<Rightarrow> jsstring \<Rightarrow> jsval option \<Rightarrow> jsstring option \<Rightarrow> event list \<times> (js_error + unit)" where
  "download E u ps filename =
     (let attempt =
            (case request E (download_config u ps) of
               (evs, Inl e) \<Rightarrow> (evs, Inl e)
             | (evs, Inr resp) \<Rightarrow>
                 (case get_prop E resp (ascii ''success'') of
                    Inl e \<Rightarrow> (evs, Inl e)
                  | Inr success \<Rightarrow>
                      if \<not> truthy success then (evs, Inr ())
                      else
                        (case get_prop E resp (ascii ''data'') of
                           Inl e \<Rightarrow> (evs, Inl e)
                         | Inr (JBlob b) \<Rightarrow>
                             let downloadUrl = createObjectURL E b;
                                 a = \<lparr> link_href = downloadUrl,
                                       link_download =
                                         (case filename of
                                            None \<Rightarrow> ascii ''download''
                                          | Some f \<Rightarrow> if f \<noteq> [] then f else ascii ''download'') \<rparr>
                             in (evs @ [CreateObjectURL b, AppendChild a, Click a, RemoveChild a,
                                        RevokeObjectURL downloadUrl], Inr ())
                         | Inr _ \<Rightarrow> (evs, Inr ()))))
      in case attempt of
           (evs, Inr x) \<Rightarrow> (evs, Inr x)
         | (evs, Inl error) \<Rightarrow> (evs @ [ConsoleError label_download_failed error], Inl error))"

text \<open>The file saves among the effects of a call: the clicks, with the anchor's file name.\<close>

fun saved_as :: "event list \<Rightarrow> jsstring list" where
  "saved_as [] = []"
| "saved_as (Click a # evs) = link_download a # saved_as evs"
| "saved_as (e # evs) = saved_as evs"

section \<open>Notions the properties are stated with\<close>

text \<open>The shape \<open>{ success, code, msg, data }\<close>: an object with these four properties.\<close>

definition envelope_shaped :: "jsval \<Rightarrow> bool" where
  "envelope_shaped v =
     (in_object (ascii ''success'') v \<and> in_object (ascii ''code'') v
      \<and> in_object (ascii ''msg'') v \<and> in_object (ascii ''data'') v)"


section \<open>Concrete surroundings for the examples\<close>

text \<open>
  A transport that answers every call with the given outcome. \<open>example_parse\<close> is
  \<open>JSON.parse\<close> on the one text the examples parse; the examples reach neither
  \<open>to_string\<close> nor \<open>type_error\<close>.
\<close>

definition example_parse :: "jsstring \<Rightarrow> js_error + jsval" where
  \<open>example_parse t =
     (if t = ascii ''{"success":false,"msg":"export failed"}''
      then Inr (JObj [(ascii ''success'', JBool False), (ascii ''msg'', JStr (ascii ''export failed''))])
      else Inl (Error (ascii ''SyntaxError'') None))\<close>

definition example_env :: "fetch_outcome \<Rightarrow> env" where
  "example_env out =
     \<lparr> config = API_CONFIG, fetch_raw = (\<lambda>u opts. out), JSON_parse = example_parse,
       to_string = (\<lambda>v. Inr (ascii ''[object Object]'')),
       type_error = (\<lambda>v k. Error (ascii ''TypeError'') None),
       createObjectURL = (\<lambda>b. ascii ''blob:1'') \<rparr>"

definition json_headers :: "(jsstring \<times> jsstring) list" where
  "json_headers = [(ascii ''content-type'', ascii ''application/json'')]"

text \<open>The answer \<open>200\<close> with a JSON content type and the given body.\<close>

definition ok_json :: "jsval \<Rightarrow> fetch_outcome" where
  "ok_json d = Resolves \<lparr> status = 200, response_headers = json_headers, response_data = d \<rparr>"

text \<open>A call to \<open>/api/users\<close> with the two flags as given and nothing else set.\<close>

definition users_call :: "bool option \<Rightarrow> bool option \<Rightarrow> RequestConfig" where
  "users_call skipEH skipRI =
     \<lparr> url = ascii ''/api/users'', req_method = None, skipErrorHandler = skipEH,
       skipResponseInterceptor = skipRI, headers = None, params = None, body = None,
       responseType = None \<rparr>"

text \<open>An envelope that reports a failure.\<close>

definition failed_body :: jsval where
  "failed_body = JObj [(ascii ''success'', JBool False), (ascii ''code'', JNum 500),
              (ascii ''msg'', JStr (ascii ''name taken''))]"

text \<open>A \<open>Blob\<close> of JSON type that holds a failure envelope.\<close>

definition failed_export :: blob where
  \<open>failed_export = Blob (ascii ''application/json'') (ascii ''{"success":false,"msg":"export failed"}'')\<close>

text \<open>A body whose only property is named \<open>skipResponseInterceptor\<close>.\<close>

definition marked_body :: jsval where
  "marked_body = JObj [(ascii ''skipResponseInterceptor'', JBool True)]"

text \<open>An envelope that reports a success, with data \<open>7\<close>.\<close>

definition served_body :: jsval where
  "served_body = JObj [(ascii ''success'', JBool True), (ascii ''data'', JNum 7)]"

text \<open>The headers of a byte stream.\<close>

definition octet_headers :: "(jsstring \<times> jsstring) list" where
  "octet_headers = [(ascii ''content-type'', ascii ''application/octet-stream'')]"

text \<open>A body with a property named \<open>skipResponseInterceptor\<close> and no \<open>success\<close>.\<close>

definition marked_page :: jsval where
  "marked_page = JObj [(ascii ''skipResponseInterceptor'', JBool False),
                       (ascii ''rows'', JArr [JNum 1, JNum 2])]"

text \<open>A file to download.\<close>

definition report :: blob where
  "report = Blob (ascii ''application/pdf'') (ascii ''%PDF-1.7'')"

section \<open>The URL resolver: properties\<close>


text \<open>
  C6. A path that already begins with \<open>http://\<close> or \<open>https://\<close> is returned
  unchanged, whatever the configured base address is.
\<close>

theorem getApiUrl_absolute_unchanged:
  "startsWith path (ascii ''http://'') \<or> startsWith path (ascii ''https://'')
     \<Longrightarrow> getApiUrl cfg path = path"
  by (simp add: getApiUrl_def)

text \<open>C6, at the configured base address and the path \<open>https://example.com/a\<close>.\<close>

theorem getApiUrl_absolute_unchanged_witness:
  "startsWith (ascii ''https://example.com/a'') (ascii ''https://'')
     \<and> getApiUrl API_CONFIG (ascii ''https://example.com/a'') = ascii ''https://example.com/a''"
proof -
  have h: "startsWith (ascii ''https://example.com/a'') (ascii ''https://'')"
    by (simp add: startsWith_def ascii_def)
  from h have "getApiUrl API_CONFIG (ascii ''https://example.com/a'') = ascii ''https://example.com/a''"
    using getApiUrl_absolute_unchanged [of "ascii ''https://example.com/a''" API_CONFIG] by blast
  with h show ?thesis by blast
qed

subsection \<open>The join of base address and path\<close>







section \<open>The dispatcher: properties\<close>

lemmas example_defs = example_env_def example_parse_def json_headers_def ok_json_def
  users_call_def API_CONFIG_def

lemma in_object_JObj: "in_object k d \<Longrightarrow> \<exists>kvs. d = JObj kvs \<and> map_of kvs k \<noteq> None"
  by (cases d) simp_all

lemma in_object_truthy: "in_object k d \<Longrightarrow> truthy d \<and> typeof_object d \<and> \<not> instanceof_Blob d"
  by (cases d) simp_all

lemma request_resolved:
  "fetch_call E cfg = Resolves r \<Longrightarrow> skipResponseInterceptor cfg \<noteq> Some True \<Longrightarrow>
   request E cfg =
     (case handleResponse E r of
        (evs, Inr v) \<Rightarrow> (evs, Inr v)
      | (evs, Inl error) \<Rightarrow>
          (evs @ (if skipErrorHandler cfg = Some True then [] else notify_failure error), Inl error))"
  by (cases "skipResponseInterceptor cfg"; cases "skipErrorHandler cfg")
     (auto simp: request_def split: prod.splits sum.splits)

lemma request_bypass:
  "fetch_call E cfg = Resolves r \<Longrightarrow> skipResponseInterceptor cfg = Some True \<Longrightarrow>
   request E cfg = ([], Inr (success_envelope (response_data r)))"
  by (simp add: request_def)

lemma request_rejected:
  "fetch_call E cfg = Rejects e \<Longrightarrow>
   request E cfg = (if skipErrorHandler cfg = Some True then [] else notify_failure e, Inl e)"
  by (cases "skipErrorHandler cfg") (auto simp: request_def)

lemma handleResponse_failure:
  assumes "response_data r = JObj kvs"
    and "map_of kvs (ascii ''skipResponseInterceptor'') = None"
    and "\<not> octet_stream r"
    and "map_of kvs (ascii ''success'') = Some s" and "\<not> truthy s"
    and "map_of kvs (ascii ''msg'') = Some (JStr M)" and "M \<noteq> []"
  shows "handleResponse E r = ([ToastError (JStr M) 5000], Inl (Error M None))"
  using assms
  by (auto simp: handleResponse_def handleError_def js_or_def throw_new_Error_def
           split: option.splits)


subsection \<open>Failure envelopes and the bypass of the error handler\<close>

text \<open>
  C1 (the code departs from it). With \<open>skipErrorHandler\<close> set, a response whose body is
  an envelope with \<open>success: false\<close> and a message \<open>M\<close> still shows one toast with
  \<open>M\<close>, and the call rejects with an error carrying \<open>M\<close>: the toast of
  \<open>handleResponse\<close> does not look at the flag. (On a rejected transport call the flag
  does silence the call: \<open>request_rejected\<close>.)
\<close>

theorem request_skipErrorHandler_still_toasts:
  assumes "fetch_call E cfg = Resolves r"
    and "skipErrorHandler cfg = Some True"
    and "skipResponseInterceptor cfg \<noteq> Some True"
    and "response_data r = JObj kvs"
    and "map_of kvs (ascii ''skipResponseInterceptor'') = None"
    and "\<not> octet_stream r"
    and "map_of kvs (ascii ''success'') = Some (JBool False)"
    and "map_of kvs (ascii ''msg'') = Some (JStr M)" and "M \<noteq> []"
  shows "request E cfg = ([ToastError (JStr M) 5000], Inl (Error M None))"
proof -
  have "handleResponse E r = ([ToastError (JStr M) 5000], Inl (Error M None))"
    using assms by (intro handleResponse_failure [where s = "JBool False"]) simp_all
  then show ?thesis
    using assms(1-3) by (simp add: request_resolved)
qed

text \<open>
  C1, at a concrete call: \<open>skipErrorHandler: true\<close> and the body
  \<open>{ success: false, code: 500, msg: 'name taken' }\<close>.
\<close>

theorem request_skipErrorHandler_still_toasts_witness:
  "request (example_env (ok_json failed_body)) (users_call (Some True) None)
     = ([ToastError (JStr (ascii ''name taken'')) 5000], Inl (Error (ascii ''name taken'') None))"
proof -
  let ?E = "example_env (ok_json failed_body)" and ?cfg = "users_call (Some True) None"
  let ?r = "\<lparr> status = 200, response_headers = json_headers, response_data = failed_body \<rparr>"
  have 1: "fetch_call ?E ?cfg = Resolves ?r"
    by (simp add: fetch_call_def example_defs)
  have 2: "skipErrorHandler ?cfg = Some True" "skipResponseInterceptor ?cfg \<noteq> Some True"
    by (simp_all add: users_call_def)
  have 3: "\<not> octet_stream ?r"
    by (simp add: octet_stream_def json_headers_def ascii_def)
  show ?thesis
    using request_skipErrorHandler_still_toasts [OF 1 2 _ _ 3, of _ "ascii ''name taken''"]
    by (simp add: failed_body_def ascii_def)
qed

subsection \<open>Failure envelopes without flags\<close>

text \<open>
  C3 (the code departs from it). Without bypass flags, a response whose body is an envelope
  with \<open>success: false\<close> and a message \<open>M\<close> that holds neither of the two markers
  the \<open>catch\<close> block looks for shows two toasts with \<open>M\<close>, one from
  \<open>handleResponse\<close> and one from the \<open>catch\<close> block, and the call rejects with an
  error carrying \<open>M\<close>.
\<close>

theorem request_failure_toasts_twice:
  assumes "fetch_call E cfg = Resolves r"
    and "skipErrorHandler cfg \<noteq> Some True"
    and "skipResponseInterceptor cfg \<noteq> Some True"
    and "response_data r = JObj kvs"
    and "map_of kvs (ascii ''skipResponseInterceptor'') = None"
    and "\<not> octet_stream r"
    and "map_of kvs (ascii ''success'') = Some (JBool False)"
    and "map_of kvs (ascii ''msg'') = Some (JStr M)" and "M \<noteq> []"
    and "\<not> includes_js M msg_request_failed" and "\<not> includes_js M msg_download_failed"
  shows "request E cfg
           = ([ToastError (JStr M) 5000, ToastError (JStr M) 5000], Inl (Error M None))"
proof -
  have "handleResponse E r = ([ToastError (JStr M) 5000], Inl (Error M None))"
    using assms by (intro handleResponse_failure [where s = "JBool False"]) simp_all
  moreover have "notify_failure (Error M None) = [ToastError (JStr M) 5000]"
    using assms(9-11) by (simp add: notify_failure_def handleError_def js_or_def)
  ultimately show ?thesis
    using assms(1-3) by (simp add: request_resolved)
qed

text \<open>
  C3, at a concrete call: no flag and the body
  \<open>{ success: false, code: 500, msg: 'name taken' }\<close>.
\<close>

theorem request_failure_toasts_twice_witness:
  "request (example_env (ok_json failed_body)) (users_call None None)
     = ([ToastError (JStr (ascii ''name taken'')) 5000, ToastError (JStr (ascii ''name taken'')) 5000],
        Inl (Error (ascii ''name taken'') None))"
proof -
  let ?E = "example_env (ok_json failed_body)" and ?cfg = "users_call None None"
  let ?r = "\<lparr> status = 200, response_headers = json_headers, response_data = failed_body \<rparr>"
  have 1: "fetch_call ?E ?cfg = Resolves ?r"
    by (simp add: fetch_call_def example_defs)
  have 2: "skipErrorHandler ?cfg \<noteq> Some True" "skipResponseInterceptor ?cfg \<noteq> Some True"
    by (simp_all add: users_call_def)
  have 3: "\<not> octet_stream ?r"
    by (simp add: octet_stream_def json_headers_def ascii_def)
  have 4: "\<not> includes_js (ascii ''name taken'') msg_request_failed"
     "\<not> includes_js (ascii ''name taken'') msg_download_failed"
    by (simp_all add: ascii_def msg_request_failed_def msg_download_failed_def)
  show ?thesis
    using request_failure_toasts_twice [OF 1 2 _ _ 3 _ _ _ 4]
    by (simp add: failed_body_def ascii_def)
qed


subsection \<open>Binary responses\<close>

lemma blob_try_failure:
  assumes "JSON_parse E text = Inr (JObj kvs)"
    and "map_of kvs (ascii ''success'') = Some (JBool False)"
  shows "catch_all (blob_try E text)
           = handleError (js_or (case map_of kvs (ascii ''msg'') of None \<Rightarrow> JUndefined | Some v \<Rightarrow> v)
                            (JStr msg_download_failed))"
  using assms by (simp add: blob_try_def catch_all_def)

text \<open>
  C2 (the code departs from it). A \<open>Blob\<close> of JSON type whose text parses to an object
  with \<open>success: false\<close> and a message \<open>M\<close> shows one toast with \<open>M\<close>, and
  then the call resolves to the success envelope around the \<open>Blob\<close>: the error thrown
  inside the \<open>try\<close> is caught by its own \<open>catch\<close>.
\<close>

theorem request_blob_json_failure_resolves:
  assumes "fetch_call E cfg = Resolves r"
    and "skipResponseInterceptor cfg \<noteq> Some True"
    and "response_data r = JBlob b"
    and "startsWith (blob_type b) (ascii ''application/json'')"
    and "JSON_parse E (blob_text b) = Inr (JObj kvs)"
    and "map_of kvs (ascii ''success'') = Some (JBool False)"
    and "map_of kvs (ascii ''msg'') = Some (JStr M)" and "M \<noteq> []"
  shows "request E cfg = ([ToastError (JStr M) 5000], Inr (success_envelope (JBlob b)))"
proof -
  have "catch_all (blob_try E (blob_text b)) = [ToastError (JStr M) 5000]"
    using assms(5-8) by (simp add: blob_try_failure handleError_def js_or_def)
  then have "handleResponse E r = ([ToastError (JStr M) 5000], Inr (success_envelope (JBlob b)))"
    using assms(3,4) by (simp add: handleResponse_def)
  then show ?thesis
    using assms(1,2) by (simp add: request_resolved)
qed

text \<open>
  C2, at a concrete call: the body is a \<open>Blob\<close> of type \<open>application/json\<close>
  with the text \<open>{"success":false,"msg":"export failed"}\<close>.
\<close>

theorem request_blob_json_failure_resolves_witness:
  "request (example_env (ok_json (JBlob failed_export))) (users_call None None)
     = ([ToastError (JStr (ascii ''export failed'')) 5000], Inr (success_envelope (JBlob failed_export)))"
proof -
  let ?E = "example_env (ok_json (JBlob failed_export))" and ?cfg = "users_call None None"
  let ?r = "\<lparr> status = 200, response_headers = json_headers, response_data = JBlob failed_export \<rparr>"
  have 1: "fetch_call ?E ?cfg = Resolves ?r"
    by (simp add: fetch_call_def example_defs)
  have 2: "skipResponseInterceptor ?cfg \<noteq> Some True"
    by (simp add: users_call_def)
  have 3: "response_data ?r = JBlob failed_export"
    by simp
  have 4: "startsWith (blob_type failed_export) (ascii ''application/json'')"
    by (simp add: failed_export_def startsWith_def)
  have 5: "JSON_parse ?E (blob_text failed_export)
             = Inr (JObj [(ascii ''success'', JBool False), (ascii ''msg'', JStr (ascii ''export failed''))])"
    by (simp add: example_env_def example_parse_def failed_export_def)
  show ?thesis
    using request_blob_json_failure_resolves [OF 1 2 3 4 5, of "ascii ''export failed''"]
    by (simp add: ascii_def)
qed


subsection \<open>What a call resolves to\<close>

lemma handleResponse_returns:
  assumes "handleResponse E r = (evs, Inr v)"
  shows "v = success_envelope (response_data r)
         \<or> v = response_data r
           \<and> (in_object (ascii ''skipResponseInterceptor'') (response_data r)
              \<or> \<not> octet_stream r \<and> in_object (ascii ''success'') (response_data r)
                \<and> (\<exists>s. get_prop E (response_data r) (ascii ''success'') = Inr s \<and> truthy s))"
proof (cases "in_object (ascii ''skipResponseInterceptor'') (response_data r)")
  case True
  then show ?thesis
    using assms in_object_truthy [OF True] by (simp add: handleResponse_def)
next
  case noskip: False
  show ?thesis
  proof (cases "octet_stream r \<or> instanceof_Blob (response_data r)")
    case True
    then show ?thesis
      using assms noskip by (auto simp: handleResponse_def Let_def)
  next
    case nobin: False
    show ?thesis
    proof (cases "in_object (ascii ''success'') (response_data r)")
      case True
      then obtain kvs where d: "response_data r = JObj kvs"
        using in_object_JObj by blast
      show ?thesis
        using assms noskip nobin True d
        by (auto simp: handleResponse_def split: if_splits)
    next
      case False
      then show ?thesis
        using assms noskip nobin by (auto simp: handleResponse_def)
    qed
  qed
qed

text \<open>
  Apart from an error, a call yields the synthetic success envelope around the response
  body or the response body itself; with \<open>skipResponseInterceptor\<close> set, always the
  former.
\<close>

lemma request_resolves_to:
  assumes "fetch_call E cfg = Resolves r" and "request E cfg = (evs, Inr v)"
  shows "(if skipResponseInterceptor cfg = Some True
          then v = success_envelope (response_data r)
          else v = success_envelope (response_data r)
               \<or> v = response_data r
                 \<and> (in_object (ascii ''skipResponseInterceptor'') (response_data r)
                    \<or> \<not> octet_stream r \<and> in_object (ascii ''success'') (response_data r)
                      \<and> (\<exists>s. get_prop E (response_data r) (ascii ''success'') = Inr s \<and> truthy s)))"
proof (cases "skipResponseInterceptor cfg = Some True")
  case True
  then show ?thesis
    using assms by (simp add: request_bypass)
next
  case False
  obtain evs' where "handleResponse E r = (evs', Inr v)"
    using assms False by (auto simp: request_resolved split: prod.splits sum.splits)
  then show ?thesis
    using False handleResponse_returns by simp
qed

text \<open>
  The first test of \<open>handleResponse\<close> looks for a property named
  \<open>skipResponseInterceptor\<close> in the body the server sent, whatever its value: such a
  body is returned as it is, with no toast and no error.
\<close>

lemma handleResponse_marked:
  assumes "in_object (ascii ''skipResponseInterceptor'') (response_data r)"
  shows "handleResponse E r = ([], Inr (response_data r))"
  using assms in_object_truthy [OF assms] by (simp add: handleResponse_def)

text \<open>
  C4 (the code departs from it). When the caller has not set
  \<open>skipResponseInterceptor\<close> and the body of the response is an object with a property
  of that name, the call resolves to the body as the server sent it: what is returned is
  decided by the content of the body. (With the flag set, the call resolves to the
  synthetic envelope and never to the body itself: \<open>request_bypass\<close>.)
\<close>

theorem request_marked_body_resolves_raw:
  assumes "fetch_call E cfg = Resolves r"
    and "skipResponseInterceptor cfg \<noteq> Some True"
    and "in_object (ascii ''skipResponseInterceptor'') (response_data r)"
  shows "request E cfg = ([], Inr (response_data r))"
  using assms by (simp add: request_resolved handleResponse_marked)

text \<open>
  C4, at a concrete call: no flag and the body \<open>{ skipResponseInterceptor: true }\<close>,
  which comes back as it is and does not have the envelope's shape.
\<close>

theorem request_marked_body_resolves_raw_witness:
  "request (example_env (ok_json marked_body)) (users_call None None) = ([], Inr marked_body)
   \<and> \<not> envelope_shaped marked_body
   \<and> skipResponseInterceptor (users_call None None) = None"
proof -
  let ?E = "example_env (ok_json marked_body)" and ?cfg = "users_call None None"
  let ?r = "\<lparr> status = 200, response_headers = json_headers, response_data = marked_body \<rparr>"
  have 1: "fetch_call ?E ?cfg = Resolves ?r"
    by (simp add: fetch_call_def example_defs)
  have 2: "skipResponseInterceptor ?cfg \<noteq> Some True"
    by (simp add: users_call_def)
  have 3: "in_object (ascii ''skipResponseInterceptor'') (response_data ?r)"
    by (simp add: marked_body_def)
  have 4: "\<not> envelope_shaped marked_body"
    by (simp add: envelope_shaped_def marked_body_def ascii_def)
  have 5: "skipResponseInterceptor ?cfg = None"
    by (simp add: users_call_def)
  from request_marked_body_resolves_raw [OF 1 2 3] 4 5
  show ?thesis by simp
qed

subsection \<open>Success envelopes\<close>

text \<open>
  C7 (amended). When \<open>skipResponseInterceptor\<close> is not set, the content type is not a
  byte stream and the body is an envelope with \<open>success: true\<close> and data \<open>X\<close>,
  the call resolves to that envelope unchanged, its data is \<open>X\<close>, and nothing is
  shown to the user.
\<close>

theorem request_success_envelope_unchanged:
  assumes "fetch_call E cfg = Resolves r"
    and "skipResponseInterceptor cfg \<noteq> Some True"
    and "\<not> octet_stream r"
    and "response_data r = JObj kvs"
    and "map_of kvs (ascii ''success'') = Some (JBool True)"
    and "map_of kvs (ascii ''data'') = Some X"
  shows "request E cfg = ([], Inr (JObj kvs))
         \<and> get_prop E (JObj kvs) (ascii ''data'') = Inr X"
proof -
  have "handleResponse E r = ([], Inr (JObj kvs))"
    using assms(3-5) by (auto simp: handleResponse_def Let_def)
  then have "request E cfg = ([], Inr (JObj kvs))"
    using assms(1,2) by (simp add: request_resolved)
  moreover have "get_prop E (JObj kvs) (ascii ''data'') = Inr X"
    using assms(6) by simp
  ultimately show ?thesis by blast
qed

text \<open>
  C7 (amended), at a concrete call: no flag, a JSON content type and the body
  \<open>{ success: true, data: 7 }\<close>.
\<close>

theorem request_success_envelope_unchanged_witness:
  "request (example_env (ok_json served_body)) (users_call None None) = ([], Inr served_body)
   \<and> get_prop (example_env (ok_json served_body)) served_body (ascii ''data'') = Inr (JNum 7)"
proof -
  let ?E = "example_env (ok_json served_body)" and ?cfg = "users_call None None"
  let ?r = "\<lparr> status = 200, response_headers = json_headers, response_data = served_body \<rparr>"
  have 1: "fetch_call ?E ?cfg = Resolves ?r"
    by (simp add: fetch_call_def example_defs)
  have 2: "skipResponseInterceptor ?cfg \<noteq> Some True"
    by (simp add: users_call_def)
  have 3: "\<not> octet_stream ?r"
    by (simp add: octet_stream_def json_headers_def ascii_def)
  have 4: "response_data ?r
             = JObj [(ascii ''success'', JBool True), (ascii ''data'', JNum 7)]"
    by (simp add: served_body_def)
  have 5: "map_of [(ascii ''success'', JBool True), (ascii ''data'', JNum 7)] (ascii ''success'')
             = Some (JBool True)"
    and 6: "map_of [(ascii ''success'', JBool True), (ascii ''data'', JNum 7)] (ascii ''data'')
             = Some (JNum 7)"
    by (simp_all add: ascii_def)
  from request_success_envelope_unchanged [OF 1 2 3 4 5 6]
  show ?thesis by (simp add: served_body_def)
qed

text \<open>
  C7 fails as stated: when the content type is \<open>application/octet-stream\<close>, the
  envelope \<open>{ success: true, data: 7 }\<close> is wrapped into a new envelope, whose data is
  the whole body and not \<open>7\<close>.
\<close>

theorem request_octet_stream_envelope_rewrapped:
  "request (example_env (Resolves \<lparr> status = 200, response_headers = octet_headers,
                                      response_data = served_body \<rparr>)) (users_call None None)
     = ([], Inr (success_envelope served_body))
   \<and> success_envelope served_body \<noteq> served_body
   \<and> get_prop (example_env (Resolves \<lparr> status = 200, response_headers = octet_headers,
                                       response_data = served_body \<rparr>))
        (success_envelope served_body) (ascii ''data'') = Inr served_body
   \<and> served_body \<noteq> JNum 7"
  by (simp add: request_def fetch_call_def example_defs handleResponse_def octet_stream_def
        octet_headers_def served_body_def success_envelope_def ascii_def)

subsection \<open>Other bodies\<close>

text \<open>
  A body without a property named \<open>skipResponseInterceptor\<close> that is neither a byte
  stream, a \<open>Blob\<close> nor an object with a \<open>success\<close> property is wrapped into
  \<open>{ success: true, code: 200, msg: 'success', data: body }\<close>.
\<close>

lemma request_other_body_wrapped:
  assumes "fetch_call E cfg = Resolves r"
    and "skipResponseInterceptor cfg \<noteq> Some True"
    and "\<not> octet_stream r" and "\<not> instanceof_Blob (response_data r)"
    and "\<not> in_object (ascii ''success'') (response_data r)"
    and "\<not> in_object (ascii ''skipResponseInterceptor'') (response_data r)"
  shows "request E cfg = ([], Inr (success_envelope (response_data r)))"
proof -
  have "handleResponse E r = ([], Inr (success_envelope (response_data r)))"
    using assms(3-6) by (simp add: handleResponse_def)
  then show ?thesis
    using assms(1,2) by (simp add: request_resolved)
qed

lemma envelope_not_body: "d \<noteq> success_envelope d"
proof
  assume "d = success_envelope d"
  then have "size d = size (success_envelope d)" by simp
  then show False by (simp add: success_envelope_def)
qed

text \<open>
  C8 (the code departs from it). When \<open>skipResponseInterceptor\<close> is not set and the
  response is neither a byte stream nor a \<open>Blob\<close>, a body that is an object without a
  \<open>success\<close> property but with one named \<open>skipResponseInterceptor\<close> is not
  wrapped: the call resolves to the body itself, which is not the synthetic envelope
  around it.
\<close>

theorem request_marked_body_not_wrapped:
  assumes "fetch_call E cfg = Resolves r"
    and "skipResponseInterceptor cfg \<noteq> Some True"
    and "\<not> octet_stream r" and "\<not> instanceof_Blob (response_data r)"
    and "\<not> in_object (ascii ''success'') (response_data r)"
    and "in_object (ascii ''skipResponseInterceptor'') (response_data r)"
  shows "request E cfg = ([], Inr (response_data r))
         \<and> response_data r \<noteq> success_envelope (response_data r)"
  using assms(1,2,6) by (simp add: request_resolved handleResponse_marked envelope_not_body)

text \<open>
  C8, at a concrete call: no flag, a JSON content type and the body
  \<open>{ skipResponseInterceptor: false, rows: [1, 2] }\<close>.
\<close>

theorem request_marked_body_not_wrapped_witness:
  "request (example_env (ok_json marked_page)) (users_call None None) = ([], Inr marked_page)
   \<and> marked_page \<noteq> success_envelope marked_page
   \<and> \<not> instanceof_Blob marked_page
   \<and> \<not> in_object (ascii ''success'') marked_page
   \<and> \<not> octet_stream \<lparr> status = 200, response_headers = json_headers, response_data = marked_page \<rparr>"
proof -
  let ?E = "example_env (ok_json marked_page)" and ?cfg = "users_call None None"
  let ?r = "\<lparr> status = 200, response_headers = json_headers, response_data = marked_page \<rparr>"
  have 1: "fetch_call ?E ?cfg = Resolves ?r"
    by (simp add: fetch_call_def example_defs)
  have 2: "skipResponseInterceptor ?cfg \<noteq> Some True"
    by (simp add: users_call_def)
  have 3: "\<not> octet_stream ?r"
    by (simp add: octet_stream_def json_headers_def ascii_def)
  have 4: "\<not> instanceof_Blob (response_data ?r)"
    by (simp add: marked_page_def)
  have 5: "\<not> in_object (ascii ''success'') (response_data ?r)"
    by (simp add: marked_page_def ascii_def)
  have 6: "in_object (ascii ''skipResponseInterceptor'') (response_data ?r)"
    by (simp add: marked_page_def)
  from request_marked_body_not_wrapped [OF 1 2 3 4 5 6] 3 4 5
  show ?thesis by simp
qed

subsection \<open>download\<close>

lemma download_config_bypass: "skipResponseInterceptor (download_config u ps) = Some True"
  by (simp add: download_config_def)

lemma get_prop_envelope:
  "get_prop E (success_envelope d) (ascii ''success'') = Inr (JBool True)"
  "get_prop E (success_envelope d) (ascii ''data'') = Inr d"
  by (simp_all add: success_envelope_def ascii_def)

lemma download_blob:
  assumes "fetch_call E (download_config u ps) = Resolves r"
    and "response_data r = JBlob b"
  shows "download E u ps filename =
           (let a = \<lparr> link_href = createObjectURL E b,
                       link_download = (case filename of
                                          None \<Rightarrow> ascii ''download''
                                        | Some f \<Rightarrow> if f \<noteq> [] then f else ascii ''download'') \<rparr>
            in ([CreateObjectURL b, AppendChild a, Click a, RemoveChild a,
                 RevokeObjectURL (createObjectURL E b)], Inr ()))"
  using assms
  by (simp add: download_def request_bypass [OF _ download_config_bypass] get_prop_envelope
        Let_def)

text \<open>
  C9 (amended). When the transport call of \<open>download\<close> resolves with a \<open>Blob\<close>,
  \<open>download\<close> resolves and exactly one file is saved; its name is the given file name
  when that is a string that is not empty, and \<open>download\<close> when none or the empty string
  is given. The last effect releases the object URL.
\<close>

theorem download_saves_once:
  assumes "fetch_call E (download_config u ps) = Resolves r"
    and "response_data r = JBlob b"
  shows "snd (download E u ps filename) = Inr ()
         \<and> saved_as (fst (download E u ps filename))
             = [case filename of
                  None \<Rightarrow> ascii ''download''
                | Some f \<Rightarrow> if f \<noteq> [] then f else ascii ''download'']
         \<and> last (fst (download E u ps filename)) = RevokeObjectURL (createObjectURL E b)"
  by (simp add: download_blob [OF assms] Let_def)

text \<open>
  C9 (amended), at a concrete call, with the file name \<open>report.pdf\<close> and with none.
\<close>

theorem download_saves_once_witness:
  "saved_as (fst (download (example_env (ok_json (JBlob report))) (ascii ''/files/1'') None
                    (Some (ascii ''report.pdf'')))) = [ascii ''report.pdf'']
   \<and> saved_as (fst (download (example_env (ok_json (JBlob report))) (ascii ''/files/1'') None None))
       = [ascii ''download'']
   \<and> snd (download (example_env (ok_json (JBlob report))) (ascii ''/files/1'') None None) = Inr ()"
proof -
  let ?E = "example_env (ok_json (JBlob report))"
  let ?r = "\<lparr> status = 200, response_headers = json_headers, response_data = JBlob report \<rparr>"
  have 1: "fetch_call ?E (download_config (ascii ''/files/1'') None) = Resolves ?r"
    by (simp add: fetch_call_def example_defs)
  have 2: "response_data ?r = JBlob report"
    by simp
  from download_saves_once [OF 1 2, of "Some (ascii ''report.pdf'')"]
       download_saves_once [OF 1 2, of None]
  show ?thesis by (simp add: ascii_def)
qed

text \<open>
  C9 fails as stated: given the empty string as file name, the file is saved as
  \<open>download\<close>, not under the given name.
\<close>

theorem download_empty_filename_saved_as_download:
  "saved_as (fst (download (example_env (ok_json (JBlob report))) (ascii ''/files/1'') None (Some [])))
     = [ascii ''download'']
   \<and> ascii ''download'' \<noteq> []
   \<and> snd (download (example_env (ok_json (JBlob report))) (ascii ''/files/1'') None (Some [])) = Inr ()"
  by (simp add: download_def download_config_def request_def fetch_call_def example_defs
        success_envelope_def report_def ascii_def Let_def)

text \<open>
  C10. When the transport call of \<open>download\<close> resolves and the payload is not a
  \<open>Blob\<close>, \<open>download\<close> resolves, saves no file and shows nothing: it has no
  effect at all.
\<close>

theorem download_without_blob_is_silent:
  assumes "fetch_call E (download_config u ps) = Resolves r"
    and "\<not> instanceof_Blob (response_data r)"
  shows "download E u ps filename = ([], Inr ())"
  using assms
  by (cases "response_data r")
     (simp_all add: download_def request_bypass [OF _ download_config_bypass] get_prop_envelope)

text \<open>
  C10, at a concrete call: the answer \<open>204\<close> without a body.
\<close>

theorem download_without_blob_is_silent_witness:
  "fetch_call (example_env (Resolves \<lparr> status = 204, response_headers = [], response_data = JUndefined \<rparr>))
      (download_config (ascii ''/files/1'') None)
     = Resolves \<lparr> status = 204, response_headers = [], response_data = JUndefined \<rparr>
   \<and> \<not> instanceof_Blob JUndefined
   \<and> download (example_env (Resolves \<lparr> status = 204, response_headers = [], response_data = JUndefined \<rparr>))
       (ascii ''/files/1'') None (Some (ascii ''report.pdf'')) = ([], Inr ())"
proof -
  let ?r = "\<lparr> status = 204, response_headers = [], response_data = JUndefined \<rparr>"
  have 1: "fetch_call (example_env (Resolves ?r)) (download_config (ascii ''/files/1'') None) = Resolves ?r"
    by (simp add: fetch_call_def example_env_def)
  have 2: "\<not> instanceof_Blob (response_data ?r)"
    by simp
  from download_without_blob_is_silent [OF 1 2, of "Some (ascii ''report.pdf'')"] 1
  show ?thesis by simp
qed

end
